theory Spec2Isabelle
  imports Main "HOL-Library.Word"
begin

unbundle bit_operations_syntax

section \<open>The fixture contract \<open>SimpleContract\<close>\<close>

text \<open>
  \<^verbatim>\<open>
  contract SimpleContract {
      uint256 public value;
      constructor(uint256 _value) { value = _value; }
      function setValue(uint256 _value) public { value = _value; }
  }
  \<close>
  Contract storage is a map from slot numbers to 256-bit words. \<open>value\<close> is the first
  (and only) state variable, so the compiler lays it out in slot 0. A fresh account
  starts with every slot zero. Neither function has a \<open>require\<close> or a modifier, so
  neither has an error branch; the caller (\<open>msg.sender\<close>) is an argument of the model to
  make visible that the body never reads it.
\<close>

type_synonym uint256 = "256 word"
type_synonym address = "160 word"
type_synonym bytes = "8 word list"
type_synonym storage = "uint256 \<Rightarrow> uint256"

definition value_slot :: uint256 where
  "value_slot = 0"

definition empty_storage :: storage where
  "empty_storage = (\<lambda>slot. 0)"

definition constructor :: "uint256 \<Rightarrow> storage" where
  "constructor v = empty_storage(value_slot := v)"

definition setValue :: "address \<Rightarrow> uint256 \<Rightarrow> storage \<Rightarrow> storage" where
  "setValue msg_sender v st = st(value_slot := v)"

text \<open>The getter \<open>value()\<close> that \<open>public\<close> generates.\<close>

definition value_getter :: "storage \<Rightarrow> uint256" where
  "value_getter st = st value_slot"

section \<open>The reproduction script\<close>

text \<open>
  \<^verbatim>\<open>
  #!/usr/bin/env bash
  set -euo pipefail
  rm -rf artifacts cache
  npx hardhat test solidity test/solidity/Test.t.sol
  \<close>
  A script is a list of statements: the \<open>set\<close> builtin, which switches shell options on,
  and simple commands, given by their words. The programs the script starts (\<open>rm\<close>,
  \<open>npx\<close>) are outside the repository: their exit statuses come from an oracle \<open>ex\<close>.
  The interpreter keeps the options in force, the commands started so far and the status
  of the last command. Under \<open>errexit\<close> (\<open>set -e\<close>) a command that exits non-zero ends
  the script with that status; otherwise the script ends after its last statement with
  the status of the last command.
\<close>

datatype shopt = Errexit | Nounset | Pipefail

datatype stmt = SetOpts "shopt list" | Exec "string list"

record shell_run =
  executed :: "string list list"
  exit_status :: nat

fun run_script ::
  "(string list \<Rightarrow> nat) \<Rightarrow> shopt list \<Rightarrow> string list list \<Rightarrow> nat \<Rightarrow> stmt list \<Rightarrow> shell_run"
where
  "run_script ex opts started status [] = \<lparr>executed = started, exit_status = status\<rparr>"
| "run_script ex opts started status (SetOpts os # rest) =
     run_script ex (os @ opts) started 0 rest"
| "run_script ex opts started status (Exec argv # rest) =
     (if ex argv \<noteq> 0 \<and> Errexit \<in> set opts
      then \<lparr>executed = started @ [argv], exit_status = ex argv\<rparr>
      else run_script ex opts (started @ [argv]) (ex argv) rest)"

definition rm_command :: "string list" where
  "rm_command = [''rm'', ''-rf'', ''artifacts'', ''cache'']"

definition test_command :: "string list" where
  "test_command = [''npx'', ''hardhat'', ''test'', ''solidity'', ''test/solidity/Test.t.sol'']"

definition reproduce_script :: "stmt list" where
  "reproduce_script =
     [SetOpts [Errexit, Nounset, Pipefail], Exec rm_command, Exec test_command]"

definition reproduce :: "(string list \<Rightarrow> nat) \<Rightarrow> shell_run" where
  "reproduce ex = run_script ex [] [] 0 reproduce_script"

text \<open>A word of a command line is a flag when it starts with a dash.\<close>

fun is_flag :: "string \<Rightarrow> bool" where
  "is_flag [] = False"
| "is_flag (c # cs) = (c = CHR ''-'')"

text \<open>An oracle under which the deletion fails (say, a directory that is not writable).\<close>

definition rm_fails :: "string list \<Rightarrow> nat" where
  "rm_fails argv = (if argv = rm_command then 1 else 0)"

text \<open>An oracle under which the deletion succeeds and the test command reports a failure.\<close>

definition tests_fail :: "string list \<Rightarrow> nat" where
  "tests_fail argv = (if argv = test_command then 1 else 0)"

section \<open>The configuration objects\<close>

text \<open>
  \<open>hardhat.config.ts\<close> exports one object literal. Its type, \<open>HardhatUserConfig\<close>,
  belongs to the tool, so the literal is kept as written: strings, booleans, arrays and
  objects (the members in source order). \<open>member_at\<close> follows a path of member names,
  as \<open>config.paths.tests.solidity\<close> does, and gives \<open>None\<close> where a member is absent.
\<close>

datatype tsval =
  TsString string
| TsBool bool
| TsArray "tsval list"
| TsObject "(string \<times> tsval) list"

fun member_at :: "tsval \<Rightarrow> string list \<Rightarrow> tsval option" where
  "member_at v [] = Some v"
| "member_at (TsObject members) (k # ks) =
     (case map_of members k of None \<Rightarrow> None | Some v \<Rightarrow> member_at v ks)"
| "member_at (TsString s) (k # ks) = None"
| "member_at (TsBool b) (k # ks) = None"
| "member_at (TsArray vs) (k # ks) = None"

text \<open>The \<open>test\<close> member is the same in both versions of the file.\<close>

definition test_member :: tsval where
  "test_member =
     TsObject [(''solidity'', TsObject
       [(''ffi'', TsBool True),
        (''fsPermissions'', TsObject
          [(''readFile'', TsArray
              [TsString ''./hardhat.config.ts'', TsString ''./artifacts/**/*.json'']),
           (''readDirectory'', TsArray
              [TsString ''./artifacts'', TsString ''./artifacts/contracts''])])])]"

definition paths_member :: tsval where
  "paths_member = TsObject [(''tests'', TsObject [(''solidity'', TsString ''./test/solidity'')])]"

text \<open>\<open>hardhat.config.ts\<close>.\<close>

definition config :: tsval where
  "config =
     TsObject
       [(''solidity'', TsObject [(''version'', TsString ''0.8.20'')]),
        (''paths'', paths_member),
        (''test'', test_member)]"

text \<open>The other version of the file, which also builds five files of an npm package.\<close>

definition config_npm :: tsval where
  "config_npm =
     TsObject
       [(''solidity'', TsObject
          [(''version'', TsString ''0.8.22''),
           (''npmFilesToBuild'', TsArray
              [TsString ''@openzeppelin/contracts/proxy/transparent/TransparentUpgradeableProxy.sol'',
               TsString ''@openzeppelin/contracts/proxy/transparent/ProxyAdmin.sol'',
               TsString ''@openzeppelin/contracts/proxy/ERC1967/ERC1967Proxy.sol'',
               TsString ''@openzeppelin/contracts/proxy/beacon/UpgradeableBeacon.sol'',
               TsString ''@openzeppelin/contracts/proxy/beacon/BeaconProxy.sol''])]),
        (''paths'', paths_member),
        (''test'', test_member)]"

text \<open>The names of an object's members, in source order.\<close>

fun member_names :: "tsval option \<Rightarrow> string list" where
  "member_names (Some (TsObject members)) = map fst members"
| "member_names other = []"

section \<open>The Solidity test fixtures\<close>

text \<open>
  The fixtures run inside the tool's execution environment, which the repository does
  not contain. What a fixture asks of it is a parameter of the model:
  \<^item> \<open>getCode\<close>: the bytecode lookup \<open>vm.getCode(name)\<close>; \<open>Inl\<close> carries the revert
    message, \<open>Inr\<close> the bytecode;
  \<^item> \<open>create\<close>: the \<open>create\<close> instruction on an init code; \<open>None\<close> is the zero address,
    \<open>Some w\<close> the chain state \<open>w\<close> with the new account;
  \<^item> \<open>call_value\<close>, \<open>call_setValue\<close>: external calls of \<open>value()\<close> and \<open>setValue(v)\<close>
    on the created account; \<open>None\<close> is a revert;
  \<^item> \<open>deployTransparentProxy\<close>: whether \<open>Upgrades.deployTransparentProxy\<close>, a library
    of an npm package, returns for the named contract (\<open>False\<close> is a revert).

  A fixture's run records the cheatcodes its own body calls on \<open>vm\<close>, in order
  (\<open>console.log\<close> lines are left out), and its result: a fixture passes when its body
  ends with no failed assertion, no revert that it does not catch and, after
  \<open>vm.expectRevert()\<close>, a revert of the next call.
\<close>

record 'w env =
  getCode :: "string \<Rightarrow> string + bytes"
  create :: "bytes \<Rightarrow> 'w option"
  call_value :: "'w \<Rightarrow> uint256 option"
  call_setValue :: "uint256 \<Rightarrow> 'w \<Rightarrow> 'w option"
  deployTransparentProxy :: "string \<Rightarrow> bool"

datatype cheatcode = GetCode string | ExpectRevert

datatype outcome = Pass | Fail

record test_run =
  cheats :: "cheatcode list"
  result :: outcome

definition assertTrue :: "bool \<Rightarrow> outcome" where
  "assertTrue b = (if b then Pass else Fail)"

definition assertEq :: "uint256 \<Rightarrow> uint256 \<Rightarrow> outcome" where
  "assertEq a b = (if a = b then Pass else Fail)"

text \<open>\<open>abi.encode\<close> of one \<open>uint256\<close>: its 32 bytes, the most significant first.\<close>

definition abi_encode :: "uint256 \<Rightarrow> bytes" where
  "abi_encode v = map (\<lambda>i. ucast (drop_bit (8 * (31 - i)) v)) [0..<32]"

text \<open>\<open>abi.encodePacked\<close> of two byte strings is their concatenation.\<close>

definition abi_encodePacked :: "bytes \<Rightarrow> bytes \<Rightarrow> bytes" where
  "abi_encodePacked code args = code @ args"

definition package_contract :: string where
  "package_contract = ''TransparentUpgradeableProxy.sol:TransparentUpgradeableProxy''"

subsection \<open>\<open>test/solidity/Test.t.sol\<close>\<close>

text \<open>
  A lookup followed by \<open>assertTrue(code.length > 0)\<close>: the body of the two \<open>LOCAL\<close>
  lookups, of the two \<open>PACKAGE\<close> lookups and of the older \<open>testGetCode\<close> fixtures. A
  revert of the lookup is not caught, so it fails the fixture.
\<close>

definition lookup_nonempty :: "'w env \<Rightarrow> string \<Rightarrow> test_run" where
  "lookup_nonempty e name =
     \<lparr>cheats = [GetCode name],
      result = (case getCode e name of
                  Inl err \<Rightarrow> Fail
                | Inr code \<Rightarrow> assertTrue (0 < length code))\<rparr>"

definition test_LOCAL_vmGetCode_SimpleContract_SHOULD_PASS :: "'w env \<Rightarrow> test_run" where
  "test_LOCAL_vmGetCode_SimpleContract_SHOULD_PASS e = lookup_nonempty e ''SimpleContract.sol''"

definition test_LOCAL_vmGetCode_Greeter_SHOULD_PASS :: "'w env \<Rightarrow> test_run" where
  "test_LOCAL_vmGetCode_Greeter_SHOULD_PASS e = lookup_nonempty e ''Greeter.sol''"

text \<open>
  The created address is not compared with zero here; \<open>deployed.value()\<close> on the zero
  address reverts, as on any account without code.
\<close>

definition test_LOCAL_deployWithVmGetCode_SHOULD_PASS :: "'w env \<Rightarrow> test_run" where
  "test_LOCAL_deployWithVmGetCode_SHOULD_PASS e =
     \<lparr>cheats = [GetCode ''SimpleContract.sol''],
      result = (case getCode e ''SimpleContract.sol'' of
                  Inl err \<Rightarrow> Fail
                | Inr code \<Rightarrow>
                    (case create e (abi_encodePacked code (abi_encode 100)) of
                       None \<Rightarrow> Fail
                     | Some w \<Rightarrow>
                         (case call_value e w of
                            None \<Rightarrow> Fail
                          | Some v \<Rightarrow> assertEq v 100)))\<rparr>"

definition test_PACKAGE_vmGetCode_TransparentProxy_EXPECT_FAIL :: "'w env \<Rightarrow> test_run" where
  "test_PACKAGE_vmGetCode_TransparentProxy_EXPECT_FAIL e = lookup_nonempty e package_contract"

text \<open>\<open>Vm(CHEATCODE_ADDRESS)\<close> is the same cheatcode account as \<open>vm\<close>.\<close>

definition test_PACKAGE_vmGetCode_viaCheatcodeAddress_EXPECT_FAIL :: "'w env \<Rightarrow> test_run" where
  "test_PACKAGE_vmGetCode_viaCheatcodeAddress_EXPECT_FAIL e = lookup_nonempty e package_contract"

definition test_PACKAGE_deployTransparentProxy_EXPECT_FAIL :: "'w env \<Rightarrow> test_run" where
  "test_PACKAGE_deployTransparentProxy_EXPECT_FAIL e =
     \<lparr>cheats = [],
      result = (if deployTransparentProxy e ''Greeter.sol'' then Pass else Fail)\<rparr>"

definition diagnostic_contracts :: "string list" where
  "diagnostic_contracts =
     [''SimpleContract.sol'',
      ''Greeter.sol'',
      ''TransparentUpgradeableProxy.sol:TransparentUpgradeableProxy'',
      ''@openzeppelin/contracts/proxy/transparent/TransparentUpgradeableProxy.sol:TransparentUpgradeableProxy'',
      ''contracts/proxy/transparent/TransparentUpgradeableProxy.sol:TransparentUpgradeableProxy'',
      ''node_modules/@openzeppelin/contracts/proxy/transparent/TransparentUpgradeableProxy.sol:TransparentUpgradeableProxy'']"

text \<open>
  \<open>try vm.getCode(name) returns (...) { log } catch { log }\<close>: both branches only log, so
  a step of the loop calls the cheatcode and goes on whatever the lookup does.
\<close>

fun try_each :: "'w env \<Rightarrow> string list \<Rightarrow> test_run \<Rightarrow> test_run" where
  "try_each e [] r = r"
| "try_each e (name # names) r =
     try_each e names
       (case getCode e name of
          Inl err \<Rightarrow> r\<lparr>cheats := cheats r @ [GetCode name]\<rparr>
        | Inr code \<Rightarrow> r\<lparr>cheats := cheats r @ [GetCode name]\<rparr>)"

definition test_DIAGNOSTIC_showArtifactAvailability :: "'w env \<Rightarrow> test_run" where
  "test_DIAGNOSTIC_showArtifactAvailability e =
     try_each e diagnostic_contracts \<lparr>cheats = [], result = Pass\<rparr>"

definition test_DIAGNOSTIC_compareMethods :: "'w env \<Rightarrow> test_run" where
  "test_DIAGNOSTIC_compareMethods e =
     try_each e [package_contract, package_contract, ''Greeter.sol'', ''Greeter.sol'']
       \<lparr>cheats = [], result = Pass\<rparr>"

text \<open>The external call \<open>this.tryGetCodeForPackageContract()\<close>: it reverts when the lookup does.\<close>

definition tryGetCodeForPackageContract :: "'w env \<Rightarrow> string + unit" where
  "tryGetCodeForPackageContract e =
     (case getCode e package_contract of Inl err \<Rightarrow> Inl err | Inr code \<Rightarrow> Inr ())"

text \<open>After \<open>vm.expectRevert()\<close> the next call has to revert, or the fixture fails.\<close>

definition test_WORKAROUND_expectRevert_onPackageContract_SHOULD_PASS :: "'w env \<Rightarrow> test_run" where
  "test_WORKAROUND_expectRevert_onPackageContract_SHOULD_PASS e =
     \<lparr>cheats = [ExpectRevert, GetCode package_contract],
      result = (case tryGetCodeForPackageContract e of
                  Inl err \<Rightarrow> Pass
                | Inr u \<Rightarrow> Fail)\<rparr>"

definition Test_t_sol :: "(string \<times> ('w env \<Rightarrow> test_run)) list" where
  "Test_t_sol =
     [(''test_LOCAL_vmGetCode_SimpleContract_SHOULD_PASS'',
         test_LOCAL_vmGetCode_SimpleContract_SHOULD_PASS),
      (''test_LOCAL_vmGetCode_Greeter_SHOULD_PASS'',
         test_LOCAL_vmGetCode_Greeter_SHOULD_PASS),
      (''test_LOCAL_deployWithVmGetCode_SHOULD_PASS'',
         test_LOCAL_deployWithVmGetCode_SHOULD_PASS),
      (''test_PACKAGE_vmGetCode_TransparentProxy_EXPECT_FAIL'',
         test_PACKAGE_vmGetCode_TransparentProxy_EXPECT_FAIL),
      (''test_PACKAGE_vmGetCode_viaCheatcodeAddress_EXPECT_FAIL'',
         test_PACKAGE_vmGetCode_viaCheatcodeAddress_EXPECT_FAIL),
      (''test_PACKAGE_deployTransparentProxy_EXPECT_FAIL'',
         test_PACKAGE_deployTransparentProxy_EXPECT_FAIL),
      (''test_DIAGNOSTIC_showArtifactAvailability'',
         test_DIAGNOSTIC_showArtifactAvailability),
      (''test_DIAGNOSTIC_compareMethods'',
         test_DIAGNOSTIC_compareMethods),
      (''test_WORKAROUND_expectRevert_onPackageContract_SHOULD_PASS'',
         test_WORKAROUND_expectRevert_onPackageContract_SHOULD_PASS)]"

subsection \<open>The older versions of the test file\<close>

text \<open>
  Two older versions of the test contract: one holds \<open>testGetCode\<close> alone, the other
  \<open>testGetCode\<close> (the same body, declared \<open>view\<close>), \<open>testGetCodeAndCreate\<close> and
  \<open>testGetCodeFromPackage\<close>.
\<close>

definition testGetCode :: "'w env \<Rightarrow> test_run" where
  "testGetCode e = lookup_nonempty e ''SimpleContract.sol''"

definition testGetCodeAndCreate :: "'w env \<Rightarrow> test_run" where
  "testGetCodeAndCreate e =
     \<lparr>cheats = [GetCode ''SimpleContract.sol''],
      result = (case getCode e ''SimpleContract.sol'' of
                  Inl err \<Rightarrow> Fail
                | Inr code \<Rightarrow>
                    if \<not> 0 < length code then Fail
                    else (case create e (abi_encodePacked code (abi_encode 100)) of
                       None \<Rightarrow> Fail
                     | Some w \<Rightarrow>
                         (case call_value e w of
                            None \<Rightarrow> Fail
                          | Some v \<Rightarrow>
                              if v \<noteq> 100 then Fail
                              else (case call_setValue e 42 w of
                                 None \<Rightarrow> Fail
                               | Some w' \<Rightarrow>
                                   (case call_value e w' of
                                      None \<Rightarrow> Fail
                                    | Some v' \<Rightarrow> assertEq v' 42)))))\<rparr>"

definition testGetCodeFromPackage :: "'w env \<Rightarrow> test_run" where
  "testGetCodeFromPackage e = lookup_nonempty e ''Greeter.sol''"

definition older_fixtures :: "(string \<times> ('w env \<Rightarrow> test_run)) list" where
  "older_fixtures =
     [(''testGetCode'', testGetCode),
      (''testGetCodeAndCreate'', testGetCodeAndCreate),
      (''testGetCodeFromPackage'', testGetCodeFromPackage)]"

subsection \<open>Running the suite\<close>

text \<open>The names of the fixtures whose run calls \<open>vm.expectRevert()\<close>.\<close>

definition expecting_revert :: "'w env \<Rightarrow> (string \<times> ('w env \<Rightarrow> test_run)) list \<Rightarrow> string list" where
  "expecting_revert e fixtures =
     map fst (filter (\<lambda>(name, body). ExpectRevert \<in> set (cheats (body e))) fixtures)"

text \<open>The names of the fixtures that fail.\<close>

definition failing :: "'w env \<Rightarrow> (string \<times> ('w env \<Rightarrow> test_run)) list \<Rightarrow> string list" where
  "failing e fixtures =
     map fst (filter (\<lambda>(name, body). result (body e) = Fail) fixtures)"

text \<open>The tool reports success for a file when none of its fixtures fails.\<close>

definition suite_passes :: "'w env \<Rightarrow> bool" where
  "suite_passes e = (failing e Test_t_sol = [])"

text \<open>\<open>abi.decode\<close> of one \<open>uint256\<close>, as a constructor reads its argument.\<close>

definition abi_decode :: "bytes \<Rightarrow> uint256" where
  "abi_decode bs = foldl (\<lambda>acc b. push_bit 8 acc OR ucast b) 0 bs"

text \<open>
  An environment with the defect: the two local contracts are found, every other lookup
  reverts with the tool's message. Everything else is as favourable as can be: \<open>create\<close>
  runs the constructor of \<open>SimpleContract\<close> on the argument that ends the init code, the
  calls reach \<open>SimpleContract\<close>, and the library call returns.
\<close>

definition defect_env :: "storage env" where
  "defect_env =
     \<lparr>getCode = (\<lambda>name. if name = ''SimpleContract.sol'' \<or> name = ''Greeter.sol''
                         then Inr [0x60, 0x80]
                         else Inl ''no matching artifact found''),
      create = (\<lambda>init. if 32 \<le> length init
                         then Some (constructor (abi_decode (drop (length init - 32) init)))
                         else None),
      call_value = (\<lambda>w. Some (value_getter w)),
      call_setValue = (\<lambda>v w. Some (setValue 0 v w)),
      deployTransparentProxy = (\<lambda>name. True)\<rparr>"

section \<open>Properties of \<open>SimpleContract\<close>\<close>

text \<open>
  C10. For every \<open>v\<close>, constructing the contract with \<open>v\<close> makes \<open>value()\<close> return \<open>v\<close>.
  For every prior storage, every caller and every \<open>v\<close>, \<open>setValue(v)\<close> makes \<open>value()\<close>
  return \<open>v\<close> (the last write wins, whoever calls), and every slot other than the one
  of \<open>value\<close> keeps its content.
\<close>

theorem simple_contract_last_write_wins:
  "value_getter (constructor initial) = initial
   \<and> value_getter (setValue sender v st) = v
   \<and> value_getter (setValue sender' v' (setValue sender v st)) = v'
   \<and> (\<forall>slot. slot \<noteq> value_slot \<longrightarrow> setValue sender v st slot = st slot)
   \<and> (\<forall>slot. slot \<noteq> value_slot \<longrightarrow> constructor initial slot = 0)"
  by (simp add: value_getter_def constructor_def setValue_def empty_storage_def)

theorem simple_contract_last_write_wins_witness:
  "value_getter (constructor 100) = 100
   \<and> value_getter (setValue 1 42 (constructor 100)) = 42
   \<and> value_getter (setValue 2 7 (setValue 1 42 (constructor 100))) = 7
   \<and> (1::uint256) \<noteq> value_slot
   \<and> setValue 1 42 (constructor 100) 1 = constructor 100 1
   \<and> constructor 100 1 = 0"
proof -
  have ne: "(1::uint256) \<noteq> value_slot"
    by (simp add: value_slot_def)
  note inst = simple_contract_last_write_wins
    [where initial = 100 and sender = 1 and v = 42 and st = "constructor 100"
       and sender' = 2 and v' = 7]
  from inst ne show ?thesis
    by blast
qed

section \<open>Properties of the reproduction script\<close>

lemma reproduce_unfold:
  "reproduce ex =
     (if ex rm_command \<noteq> 0 then \<lparr>executed = [rm_command], exit_status = ex rm_command\<rparr>
      else \<lparr>executed = [rm_command, test_command], exit_status = ex test_command\<rparr>)"
  by (simp add: reproduce_def reproduce_script_def)

lemma rm_command_neq_test_command: "rm_command \<noteq> test_command"
  by (simp add: rm_command_def test_command_def)

text \<open>
  C7, as the claim states it, fails: when the deletion exits non-zero, \<open>errexit\<close> ends the
  run after one step, and the test command is never started.
\<close>

theorem reproduce_two_steps_counterexample:
  "executed (reproduce rm_fails) = [[''rm'', ''-rf'', ''artifacts'', ''cache'']]
   \<and> length (executed (reproduce rm_fails)) \<noteq> 2
   \<and> exit_status (reproduce rm_fails) = 1"
  by (simp add: reproduce_unfold rm_fails_def) (simp add: rm_command_def)

text \<open>
  C7, amended. Every run starts with the deletion \<open>rm -rf artifacts cache\<close>, once. When
  the deletion exits with status 0 the run goes on with the single command
  \<open>npx hardhat test solidity test/solidity/Test.t.sol\<close>, which carries no flag, and
  starts nothing else; when the deletion exits non-zero the run ends there.
\<close>

theorem reproduce_steps:
  "executed (reproduce ex) =
     (if ex rm_command = 0 then [rm_command, test_command] else [rm_command])
   \<and> rm_command = [''rm'', ''-rf'', ''artifacts'', ''cache'']
   \<and> test_command = [''npx'', ''hardhat'', ''test'', ''solidity'', ''test/solidity/Test.t.sol'']
   \<and> filter is_flag test_command = []"
  by (simp add: reproduce_unfold) (simp add: rm_command_def test_command_def)

text \<open>
  C8. Whenever the test command reports a failure (a non-zero exit status), the script
  exits with a non-zero status; when the test command was started, the script's status
  is the test command's.
\<close>

theorem reproduce_propagates_failure:
  "ex test_command \<noteq> 0 \<Longrightarrow>
     exit_status (reproduce ex) \<noteq> 0
     \<and> (ex rm_command = 0 \<longrightarrow> exit_status (reproduce ex) = ex test_command)"
  by (simp add: reproduce_unfold)

theorem reproduce_propagates_failure_witness:
  "tests_fail test_command \<noteq> 0
   \<and> tests_fail rm_command = 0
   \<and> exit_status (reproduce tests_fail) = 1"
proof -
  have failing: "tests_fail test_command \<noteq> 0"
    by (simp add: tests_fail_def)
  have deleted: "tests_fail rm_command = 0"
    by (simp add: tests_fail_def rm_command_neq_test_command)
  from reproduce_propagates_failure [of tests_fail, OF failing] deleted
  have "exit_status (reproduce tests_fail) = tests_fail test_command"
    by blast
  with failing deleted show ?thesis
    by (simp add: tests_fail_def)
qed

section \<open>Properties of the configuration objects\<close>

lemma member_at_config_paths:
  "member_at config (''paths'' # ks) = member_at paths_member ks"
  "member_at config_npm (''paths'' # ks) = member_at paths_member ks"
  by (simp_all add: config_def config_npm_def)

lemma member_at_config_test:
  "member_at config (''test'' # ks) = member_at test_member ks"
  "member_at config_npm (''test'' # ks) = member_at test_member ks"
  by (simp_all add: config_def config_npm_def)

text \<open>
  C9, as the claim states it, fails: in both versions of the file the only member of
  \<open>paths\<close> is \<open>tests\<close>. There is no \<open>paths.sources\<close>: the directory of the main
  Solidity sources is not overridden.
\<close>

theorem config_main_sources_counterexample:
  "member_names (member_at config [''paths'']) = [''tests'']
   \<and> member_at config [''paths'', ''sources''] = None
   \<and> member_names (member_at config_npm [''paths'']) = [''tests'']
   \<and> member_at config_npm [''paths'', ''sources''] = None"
  by (simp add: member_at_config_paths) (simp add: paths_member_def)

text \<open>
  C9, amended. Each version of the configuration object gives a compiler version
  (\<open>0.8.20\<close>, \<open>0.8.22\<close>), an override of the directory of the Solidity test sources only
  (\<open>./test/solidity\<close>; none for the main sources), the FFI toggle set to true, and the
  allow-lists of readable files and of readable directories for test execution.
\<close>

theorem config_surface:
  "member_at config [''solidity'', ''version''] = Some (TsString ''0.8.20'')
   \<and> member_at config_npm [''solidity'', ''version''] = Some (TsString ''0.8.22'')
   \<and> (c \<in> {config, config_npm} \<longrightarrow>
        member_at c [''paths'', ''tests'', ''solidity''] = Some (TsString ''./test/solidity'')
      \<and> member_names (member_at c [''paths'']) = [''tests'']
      \<and> member_at c [''test'', ''solidity'', ''ffi''] = Some (TsBool True)
      \<and> member_at c [''test'', ''solidity'', ''fsPermissions'', ''readFile''] =
          Some (TsArray [TsString ''./hardhat.config.ts'', TsString ''./artifacts/**/*.json''])
      \<and> member_at c [''test'', ''solidity'', ''fsPermissions'', ''readDirectory''] =
          Some (TsArray [TsString ''./artifacts'', TsString ''./artifacts/contracts'']))"
proof -
  have version: "member_at config [''solidity'', ''version''] = Some (TsString ''0.8.20'')"
    by (simp add: config_def)
  have version_npm: "member_at config_npm [''solidity'', ''version''] = Some (TsString ''0.8.22'')"
    by (simp add: config_npm_def)
  have paths: "member_at paths_member [''tests'', ''solidity''] = Some (TsString ''./test/solidity'')"
    "member_names (member_at paths_member []) = [''tests'']"
    by (simp_all add: paths_member_def)
  have test:
    "member_at test_member [''solidity'', ''ffi''] = Some (TsBool True)"
    "member_at test_member [''solidity'', ''fsPermissions'', ''readFile''] =
       Some (TsArray [TsString ''./hardhat.config.ts'', TsString ''./artifacts/**/*.json''])"
    "member_at test_member [''solidity'', ''fsPermissions'', ''readDirectory''] =
       Some (TsArray [TsString ''./artifacts'', TsString ''./artifacts/contracts''])"
    by (simp_all add: test_member_def)
  from version version_npm paths test show ?thesis
    by (auto simp only: member_at_config_paths member_at_config_test)
qed

theorem config_surface_witness:
  "config \<in> {config, config_npm}
   \<and> member_at config [''paths'', ''tests'', ''solidity''] = Some (TsString ''./test/solidity'')
   \<and> member_at config [''test'', ''solidity'', ''ffi''] = Some (TsBool True)"
  using config_surface [of config] by blast

section \<open>Properties of the test fixtures\<close>

lemma cheats_try_each: "cheats (try_each e names r) = cheats r @ map GetCode names"
  by (induction names arbitrary: r) (simp_all split: sum.split)

lemma result_try_each: "result (try_each e names r) = result r"
  by (induction names arbitrary: r) (simp_all split: sum.split)

lemma cheats_lookup_nonempty: "cheats (lookup_nonempty e name) = [GetCode name]"
  by (simp add: lookup_nonempty_def)

lemmas fixture_defs =
  test_LOCAL_vmGetCode_SimpleContract_SHOULD_PASS_def
  test_LOCAL_vmGetCode_Greeter_SHOULD_PASS_def
  test_LOCAL_deployWithVmGetCode_SHOULD_PASS_def
  test_PACKAGE_vmGetCode_TransparentProxy_EXPECT_FAIL_def
  test_PACKAGE_vmGetCode_viaCheatcodeAddress_EXPECT_FAIL_def
  test_PACKAGE_deployTransparentProxy_EXPECT_FAIL_def
  test_DIAGNOSTIC_showArtifactAvailability_def
  test_DIAGNOSTIC_compareMethods_def
  test_WORKAROUND_expectRevert_onPackageContract_SHOULD_PASS_def
  testGetCode_def testGetCodeAndCreate_def testGetCodeFromPackage_def

lemma expecting_revert_all:
  "expecting_revert e (Test_t_sol @ older_fixtures) =
     [''test_WORKAROUND_expectRevert_onPackageContract_SHOULD_PASS'']"
  by (simp add: expecting_revert_def Test_t_sol_def older_fixtures_def fixture_defs
      cheats_try_each cheats_lookup_nonempty image_iff)

lemma workaround_passes_iff:
  "result (test_WORKAROUND_expectRevert_onPackageContract_SHOULD_PASS e) = Pass
     \<longleftrightarrow> isl (getCode e package_contract)"
  by (simp add: test_WORKAROUND_expectRevert_onPackageContract_SHOULD_PASS_def
      tryGetCodeForPackageContract_def split: sum.split)

lemma package_lookup_passes_iff:
  "result (test_PACKAGE_vmGetCode_TransparentProxy_EXPECT_FAIL e) = Pass
     \<longleftrightarrow> (\<exists>code. getCode e package_contract = Inr code \<and> 0 < length code)"
  by (simp add: test_PACKAGE_vmGetCode_TransparentProxy_EXPECT_FAIL_def
      lookup_nonempty_def assertTrue_def split: sum.split)

lemma not_Pass: "(r \<noteq> Pass) = (r = Fail)"
  by (cases r) simp_all

lemma failing_mem:
  "(name, body) \<in> set fixtures \<Longrightarrow> result (body e) = Fail \<Longrightarrow> name \<in> set (failing e fixtures)"
  by (force simp add: failing_def)

lemma fixtures_in_suite:
  "(''test_PACKAGE_vmGetCode_TransparentProxy_EXPECT_FAIL'',
      test_PACKAGE_vmGetCode_TransparentProxy_EXPECT_FAIL) \<in> set Test_t_sol"
  "(''test_WORKAROUND_expectRevert_onPackageContract_SHOULD_PASS'',
      test_WORKAROUND_expectRevert_onPackageContract_SHOULD_PASS) \<in> set Test_t_sol"
  by (simp_all add: Test_t_sol_def)

text \<open>
  The \<open>WORKAROUND\<close> fixture and the first \<open>PACKAGE\<close> fixture ask opposite things of the
  same lookup, so one of them fails whatever the lookup does.
\<close>

lemma workaround_excludes_package:
  assumes "result (test_WORKAROUND_expectRevert_onPackageContract_SHOULD_PASS e) = Pass"
  shows "''test_PACKAGE_vmGetCode_TransparentProxy_EXPECT_FAIL'' \<in> set (failing e Test_t_sol)"
proof -
  from assms have "isl (getCode e package_contract)"
    by (simp add: workaround_passes_iff)
  then have "result (test_PACKAGE_vmGetCode_TransparentProxy_EXPECT_FAIL e) \<noteq> Pass"
    by (auto simp add: package_lookup_passes_iff)
  then have "result (test_PACKAGE_vmGetCode_TransparentProxy_EXPECT_FAIL e) = Fail"
    by (simp add: not_Pass)
  from failing_mem [OF fixtures_in_suite(1) this] show ?thesis .
qed

lemma suite_never_passes: "\<not> suite_passes e"
proof (cases "result (test_WORKAROUND_expectRevert_onPackageContract_SHOULD_PASS e)")
  case Pass
  from workaround_excludes_package [OF this] show ?thesis
    by (auto simp add: suite_passes_def)
next
  case Fail
  from failing_mem [OF fixtures_in_suite(2) this] show ?thesis
    by (auto simp add: suite_passes_def)
qed

lemma length_abi_encode: "length (abi_encode v) = 32"
  by (simp add: abi_encode_def)

lemma abi_roundtrip_100: "abi_decode (abi_encode 100) = 100"
  by (simp add: abi_decode_def abi_encode_def upt_rec)

lemma defect_env_create:
  "create defect_env (abi_encodePacked code (abi_encode 100)) = Some (constructor 100)"
  by (simp add: defect_env_def abi_encodePacked_def length_abi_encode abi_roundtrip_100)

lemma defect_env_simps:
  "getCode defect_env ''SimpleContract.sol'' = Inr [0x60, 0x80]"
  "getCode defect_env ''Greeter.sol'' = Inr [0x60, 0x80]"
  "getCode defect_env package_contract = Inl ''no matching artifact found''"
  "call_value defect_env w = Some (value_getter w)"
  "deployTransparentProxy defect_env name = True"
  by (simp_all add: defect_env_def package_contract_def)

lemma value_getter_constructor: "value_getter (constructor v) = v"
  by (simp add: value_getter_def constructor_def)

lemma defect_env_failing:
  "failing defect_env Test_t_sol =
     [''test_PACKAGE_vmGetCode_TransparentProxy_EXPECT_FAIL'',
      ''test_PACKAGE_vmGetCode_viaCheatcodeAddress_EXPECT_FAIL'']"
  by (simp add: failing_def Test_t_sol_def fixture_defs tryGetCodeForPackageContract_def
      result_try_each lookup_nonempty_def assertTrue_def assertEq_def
      defect_env_create defect_env_simps value_getter_constructor)

text \<open>
  C6, as the claim states it, fails in its last part. With the defect present (the
  package-scope lookup reverts with "no matching artifact found") and everything else in
  the suite's favour, the \<open>WORKAROUND\<close> fixture passes, but the two \<open>PACKAGE\<close> lookup
  fixtures fail, so the suite does not report success.
\<close>

theorem suite_success_counterexample:
  "getCode defect_env ''TransparentUpgradeableProxy.sol:TransparentUpgradeableProxy'' =
     Inl ''no matching artifact found''
   \<and> result (test_WORKAROUND_expectRevert_onPackageContract_SHOULD_PASS defect_env) = Pass
   \<and> failing defect_env Test_t_sol =
       [''test_PACKAGE_vmGetCode_TransparentProxy_EXPECT_FAIL'',
        ''test_PACKAGE_vmGetCode_viaCheatcodeAddress_EXPECT_FAIL'']
   \<and> \<not> suite_passes defect_env"
  using defect_env_simps(3)
  by (simp add: workaround_passes_iff defect_env_failing suite_passes_def)
    (simp add: package_contract_def)

text \<open>
  C6, amended. Among all fixtures exactly one,
  \<open>test_WORKAROUND_expectRevert_onPackageContract_SHOULD_PASS\<close>, calls
  \<open>vm.expectRevert()\<close>, right before the lookup of
  \<open>TransparentUpgradeableProxy.sol:TransparentUpgradeableProxy\<close>; it passes precisely
  when that lookup fails. The suite does not report success then: whenever this fixture
  passes, \<open>test_PACKAGE_vmGetCode_TransparentProxy_EXPECT_FAIL\<close> fails, and whatever
  the lookup does, some fixture of \<open>Test.t.sol\<close> fails.
\<close>

theorem expect_revert_fixture:
  "expecting_revert e (Test_t_sol @ older_fixtures) =
     [''test_WORKAROUND_expectRevert_onPackageContract_SHOULD_PASS'']
   \<and> cheats (test_WORKAROUND_expectRevert_onPackageContract_SHOULD_PASS e) =
       [ExpectRevert, GetCode ''TransparentUpgradeableProxy.sol:TransparentUpgradeableProxy'']
   \<and> (result (test_WORKAROUND_expectRevert_onPackageContract_SHOULD_PASS e) = Pass
        \<longleftrightarrow> isl (getCode e ''TransparentUpgradeableProxy.sol:TransparentUpgradeableProxy''))
   \<and> (result (test_WORKAROUND_expectRevert_onPackageContract_SHOULD_PASS e) = Pass
        \<longrightarrow> ''test_PACKAGE_vmGetCode_TransparentProxy_EXPECT_FAIL'' \<in> set (failing e Test_t_sol))
   \<and> \<not> suite_passes e"
proof -
  have "cheats (test_WORKAROUND_expectRevert_onPackageContract_SHOULD_PASS e) =
      [ExpectRevert, GetCode ''TransparentUpgradeableProxy.sol:TransparentUpgradeableProxy'']"
    by (simp add: test_WORKAROUND_expectRevert_onPackageContract_SHOULD_PASS_def
        package_contract_def)
  moreover have "result (test_WORKAROUND_expectRevert_onPackageContract_SHOULD_PASS e) = Pass
      \<longleftrightarrow> isl (getCode e ''TransparentUpgradeableProxy.sol:TransparentUpgradeableProxy'')"
    using workaround_passes_iff [of e] by (simp add: package_contract_def)
  ultimately show ?thesis
    using expecting_revert_all [of e] workaround_excludes_package [of e] suite_never_passes [of e]
    by blast
qed

theorem expect_revert_fixture_witness:
  "result (test_WORKAROUND_expectRevert_onPackageContract_SHOULD_PASS defect_env) = Pass
   \<and> ''test_PACKAGE_vmGetCode_TransparentProxy_EXPECT_FAIL'' \<in> set (failing defect_env Test_t_sol)
   \<and> \<not> suite_passes defect_env"
proof -
  have "result (test_WORKAROUND_expectRevert_onPackageContract_SHOULD_PASS defect_env) = Pass"
    by (simp add: workaround_passes_iff defect_env_simps)
  with expect_revert_fixture [of defect_env] show ?thesis
    by blast
qed

end
